theory Spec2Isabelle
  imports Main
begin

text \<open>
  A shallow embedding of the faex extension for Visual Studio Code. The sources are
  \<^item> \<open>unnamed/part_000\<close>: the settings and file exclusion (\<open>getConfig\<close>,
    \<open>shouldExcludeFile\<close>, \<open>matchGlobPattern\<close>), the types with \<open>getUndeclaredExceptions\<close> and
    \<open>getUnusedDeclarations\<close>, and the analyzer (\<open>convertEndpoint\<close>, \<open>EndpointAnalyzer\<close>);
  \<^item> \<open>src/providers/codeLens.ts\<close>: the CodeLens provider, followed by the code-action provider
    (\<open>createAddExceptionEdit\<close>, \<open>findDecoratorEndLine\<close>);
  \<^item> \<open>src/providers/diagnostics.ts\<close>: \<open>DiagnosticsManager\<close>;
  \<^item> \<open>src/analyzer/cli.ts\<close>: the output format of the tool and \<open>runFaexCli\<close>.
\<close>

section \<open>Data model\<close>

text \<open>
  Strings are lists of \<^typ>\<open>char\<close>; line and column numbers are integers (the source's
  \<open>number\<close>, always used as whole numbers). An optional field of an interface is an
  \<^typ>\<open>'a option\<close>, \<open>None\<close> standing for \<open>undefined\<close>. Field names that are reserved words here, or
  shared by two interfaces, carry a prefix.
\<close>

record ExceptionLocation =
  exc_file :: string
  exc_line :: int
  exc_column :: int
  exceptionClass :: string
  inFunction :: "string option"

text \<open>The field \<open>_undeclaredExceptions\<close> of the source is \<open>cli_undeclaredExceptions\<close> here.\<close>

record EndpointInfo =
  ep_file :: string
  ep_line :: int
  ep_column :: int
  functionName :: string
  ep_method :: string
  ep_path :: string
  decoratorLine :: int
  exceptionsLine :: "int option"
  declaredExceptions :: "string list"
  detectedExceptions :: "ExceptionLocation list"
  cli_undeclaredExceptions :: "ExceptionLocation list option"

text \<open>The records of the tool's JSON output; \<open>class\<close> and \<open>function\<close> are \<open>fx_class\<close>
  and \<open>fe_function\<close>, and \<open>in_function\<close> is \<open>None\<close> for JSON \<open>null\<close>.\<close>

record FaexException =
  fx_class :: string
  fx_file :: string
  fx_line :: int
  in_function :: "string option"

record FaexEndpoint =
  fe_file :: string
  fe_line :: int
  fe_function :: string
  fe_method :: string
  fe_path :: string
  declared_exceptions :: "string list"
  undeclared_exceptions :: "FaexException list"

record FaexSummary =
  total_endpoints :: int
  endpoints_with_issues :: int
  total_undeclared :: int

record FaexJsonOutput =
  summary :: FaexSummary
  endpoints :: "FaexEndpoint list"
  errors :: "string list"

record AnalysisError =
  err_file :: string
  err_line :: "int option"
  message :: string

record AnalysisResult =
  res_endpoints :: "EndpointInfo list"
  res_errors :: "AnalysisError list"

section \<open>Undeclared and unused exceptions\<close>

text \<open>
  \<open>getUndeclaredExceptions\<close> tests \<open>endpoint._undeclaredExceptions\<close> for truthiness; an
  array, also the empty one, is truthy, so the test is on the presence of the field.
  A JavaScript \<open>Set\<close> of strings built from an array is the set of its elements, and
  \<open>has\<close> is membership.
\<close>

definition getUndeclaredExceptions :: "EndpointInfo \<Rightarrow> ExceptionLocation list" where
  "getUndeclaredExceptions endpoint =
     (case cli_undeclaredExceptions endpoint of
        Some u \<Rightarrow> u
      | None \<Rightarrow>
          (let declaredSet = set (declaredExceptions endpoint)
           in filter (\<lambda>exc. \<not> (exceptionClass exc \<in> declaredSet)) (detectedExceptions endpoint)))"

definition getUnusedDeclarations :: "EndpointInfo \<Rightarrow> string list" where
  "getUnusedDeclarations endpoint =
     (let detectedSet = set (map exceptionClass (detectedExceptions endpoint))
      in filter (\<lambda>exc. \<not> (exc \<in> detectedSet)) (declaredExceptions endpoint))"

section \<open>Conversion of the tool's output\<close>

text \<open>\<open>exc.in_function || undefined\<close> maps \<open>null\<close> and the empty string to \<open>undefined\<close>.\<close>

definition convertException :: "FaexException \<Rightarrow> ExceptionLocation" where
  "convertException exc =
     \<lparr> exc_file = fx_file exc,
       exc_line = fx_line exc,
       exc_column = 0,
       exceptionClass = fx_class exc,
       inFunction = (case in_function exc of
                       None \<Rightarrow> None
                     | Some f \<Rightarrow> if f = [] then None else Some f) \<rparr>"

definition convertEndpoint :: "FaexEndpoint \<Rightarrow> EndpointInfo" where
  "convertEndpoint faexEndpoint =
     \<lparr> ep_file = fe_file faexEndpoint,
       ep_line = fe_line faexEndpoint,
       ep_column = 0,
       functionName = fe_function faexEndpoint,
       ep_method = fe_method faexEndpoint,
       ep_path = fe_path faexEndpoint,
       decoratorLine = fe_line faexEndpoint,
       exceptionsLine = None,
       declaredExceptions = declared_exceptions faexEndpoint,
       detectedExceptions = [],
       cli_undeclaredExceptions = Some (map convertException (undeclared_exceptions faexEndpoint)) \<rparr>"

section \<open>The regenerated exception list\<close>

text \<open>\<open>Array.prototype.includes\<close> on strings and \<open>Array.prototype.join\<close>.\<close>

definition array_includes :: "'a list \<Rightarrow> 'a \<Rightarrow> bool" where
  "array_includes xs x = (x \<in> set xs)"

fun join :: "string \<Rightarrow> string list \<Rightarrow> string" where
  "join sep [] = []"
| "join sep [x] = x"
| "join sep (x # y # ys) = x @ sep @ join sep (y # ys)"

text \<open>The local \<open>allExceptions\<close> of \<open>createAddExceptionEdit\<close>, and the list text both
  branches render from it.\<close>

definition allExceptions :: "string list \<Rightarrow> string list \<Rightarrow> string list" where
  "allExceptions declared newExceptions =
     declared @ filter (\<lambda>e. \<not> array_includes declared e) newExceptions"

definition exceptionsText :: "string list \<Rightarrow> string" where
  "exceptionsText names = ''exceptions=['' @ join '', '' names @ '']''"

section \<open>Strings and documents\<close>

text \<open>
  The JavaScript string methods the code calls, on strings whose code units are below 256.
  \<open>is_space\<close> is the class \<open>\s\<close> of regular expressions, which is also what \<open>trim\<close>
  removes: tab, line feed, vertical tab, form feed, carriage return, space and no-break
  space.
\<close>

abbreviation dquote :: char where "dquote \<equiv> CHR 0x22"
abbreviation squote :: char where "squote \<equiv> CHR 0x27"
abbreviation backslash :: char where "backslash \<equiv> CHR 0x5C"

definition is_space :: "char \<Rightarrow> bool" where
  "is_space c =
     (c = CHR 0x09 \<or> c = CHR 0x0A \<or> c = CHR 0x0B \<or> c = CHR 0x0C \<or> c = CHR 0x0D \<or>
      c = CHR 0x20 \<or> c = CHR 0xA0)"

definition trim :: "string \<Rightarrow> string" where
  "trim s = rev (dropWhile is_space (rev (dropWhile is_space s)))"

definition startsWith :: "string \<Rightarrow> string \<Rightarrow> bool" where
  "startsWith s p = (take (length p) s = p)"

definition endsWith :: "string \<Rightarrow> string \<Rightarrow> bool" where
  "endsWith s p = (length p \<le> length s \<and> drop (length s - length p) s = p)"

text \<open>\<open>indexOf\<close> is the index of the first occurrence, \<open>lastIndexOf\<close> (called with a string of
  one character) the index of the last one; both are \<open>-1\<close> when there is none.\<close>

fun indexOf :: "string \<Rightarrow> string \<Rightarrow> int" where
  "indexOf [] p = (if p = [] then 0 else - 1)"
| "indexOf (c # cs) p =
     (if startsWith (c # cs) p then 0
      else (let r = indexOf cs p in if r < 0 then - 1 else r + 1))"

fun lastIndexOf :: "string \<Rightarrow> char \<Rightarrow> int" where
  "lastIndexOf [] c = - 1"
| "lastIndexOf (x # xs) c =
     (let r = lastIndexOf xs c in if r \<ge> 0 then r + 1 else if x = c then 0 else - 1)"

text \<open>\<open>substring\<close> clamps both indices to the string and swaps them when out of order.\<close>

definition substring :: "string \<Rightarrow> int \<Rightarrow> int \<Rightarrow> string" where
  "substring s a b =
     (let n = int (length s);
          a' = max 0 (min a n);
          b' = max 0 (min b n);
          lo = min a' b';
          hi = max a' b'
      in take (nat (hi - lo)) (drop (nat lo) s))"

text \<open>
  A text document is the list of its lines. \<open>TextDocument.lineAt\<close> of the editor's API
  throws \<open>Illegal value for `line`\<close> outside \<open>0 \<le> line < lineCount\<close>.
\<close>

datatype error = IllegalLine | RegexSyntaxError string | JsonSyntaxError

type_synonym TextDocument = "string list"

definition lineCount :: "TextDocument \<Rightarrow> int" where
  "lineCount document = int (length document)"

definition lineAt :: "TextDocument \<Rightarrow> int \<Rightarrow> error + string" where
  "lineAt document l =
     (if l < 0 \<or> l \<ge> lineCount document then Inl IllegalLine else Inr (document ! nat l))"

section \<open>The parenthesis scan (\<open>findDecoratorEndLine\<close>)\<close>

text \<open>
  The three local variables of \<open>findDecoratorEndLine\<close> that live across characters and
  lines. A character of the source is a string of length one, \<open>prevChar\<close> and the
  initial \<open>stringChar\<close> are the empty string.
\<close>

record scan_state =
  parenCount :: int
  inString :: bool
  stringChar :: string

definition scan_init :: scan_state where
  "scan_init = \<lparr> parenCount = 0, inString = False, stringChar = [] \<rparr>"

text \<open>The inner loop over one line: \<open>Balanced\<close> is the \<open>return line\<close> of the source, \<open>Carry\<close> the
  state at the end of the line.\<close>

datatype line_scan = Balanced | Carry scan_state

fun scan_text :: "string \<Rightarrow> string \<Rightarrow> scan_state \<Rightarrow> line_scan" where
  "scan_text prevChar [] s = Carry s"
| "scan_text prevChar (char # rest) s =
     (if (char = dquote \<or> char = squote) \<and> prevChar \<noteq> [backslash] then
        (if \<not> inString s then
           scan_text [char] rest (s\<lparr>inString := True, stringChar := [char]\<rparr>)
         else if [char] = stringChar s then
           scan_text [char] rest (s\<lparr>inString := False\<rparr>)
         else scan_text [char] rest s)
      else if inString s then scan_text [char] rest s
      else if char = CHR ''('' then
        scan_text [char] rest (s\<lparr>parenCount := parenCount s + 1\<rparr>)
      else if char = CHR '')'' then
        (let s' = s\<lparr>parenCount := parenCount s - 1\<rparr>
         in if parenCount s' = 0 then Balanced else scan_text [char] rest s')
      else scan_text [char] rest s)"

text \<open>The outer loop over the lines, from \<open>line\<close> to the end of the document.\<close>

function scan_lines :: "TextDocument \<Rightarrow> int \<Rightarrow> scan_state \<Rightarrow> error + int option" where
  "scan_lines document line s =
     (if line < lineCount document then
        (case lineAt document line of
           Inl e \<Rightarrow> Inl e
         | Inr text \<Rightarrow>
             (case scan_text [] text s of
                Balanced \<Rightarrow> Inr (Some line)
              | Carry s' \<Rightarrow> scan_lines document (line + 1) s'))
      else Inr None)"
  by pat_completeness auto
termination
  by (relation "measure (\<lambda>(document, line, s). nat (lineCount document - line))") auto

declare scan_lines.simps [simp del]

definition findDecoratorEndLine :: "TextDocument \<Rightarrow> int \<Rightarrow> error + int" where
  "findDecoratorEndLine document startLine =
     (case scan_lines document startLine scan_init of
        Inl e \<Rightarrow> Inl e
      | Inr (Some line) \<Rightarrow> Inr line
      | Inr None \<Rightarrow> Inr startLine)"

section \<open>The scan as the specification describes it\<close>

text \<open>
  The specification's scan, written from its words and not from the loop above: the
  parenthesis depth is tracked character by character, the characters inside a single- or
  double-quoted string literal are skipped, and a backslash-escaped quote does not
  terminate the literal. A literal is opened by a quote; inside it a backslash escapes the
  character that follows (so the second of two backslashes is an escaped backslash, and
  does not escape a quote after it), and the next quote of the opening kind that is not
  escaped closes it. An escape does not reach across the end of a line.
\<close>

datatype literal_state = Outside | Inside char | Escaped char

fun spec_literal_next :: "literal_state \<Rightarrow> char \<Rightarrow> literal_state" where
  "spec_literal_next Outside c = (if c = dquote \<or> c = squote then Inside c else Outside)"
| "spec_literal_next (Inside q) c =
     (if c = backslash then Escaped q else if c = q then Outside else Inside q)"
| "spec_literal_next (Escaped q) c = Inside q"

text \<open>
  Only a parenthesis outside a literal changes the depth. \<open>spec_scan_text\<close> reads one line
  from a depth and a literal state: \<open>None\<close> when a character of the line brings an open
  depth back to zero, and the depth and state at the end of the line otherwise. The end
  line is the first line on which that happens, and the start line when the document
  ends before.
\<close>

definition spec_depth_change :: "literal_state \<Rightarrow> char \<Rightarrow> int" where
  "spec_depth_change st c =
     (if st = Outside then (if c = CHR ''('' then 1 else if c = CHR '')'' then - 1 else 0) else 0)"

fun spec_scan_text :: "string \<Rightarrow> int \<Rightarrow> literal_state \<Rightarrow> (int \<times> literal_state) option" where
  "spec_scan_text [] d st = Some (d, st)"
| "spec_scan_text (c # cs) d st =
     (if d > 0 \<and> d + spec_depth_change st c = 0 then None
      else spec_scan_text cs (d + spec_depth_change st c) (spec_literal_next st c))"

fun spec_scan_lines :: "string list \<Rightarrow> int \<Rightarrow> int \<Rightarrow> literal_state \<Rightarrow> int option" where
  "spec_scan_lines [] l d st = None"
| "spec_scan_lines (t # ts) l d st =
     (case spec_scan_text t d st of
        None \<Rightarrow> Some l
      | Some (d', st') \<Rightarrow>
          spec_scan_lines ts (l + 1) d' (case st' of Escaped q \<Rightarrow> Inside q | _ \<Rightarrow> st'))"

definition spec_end_line :: "TextDocument \<Rightarrow> nat \<Rightarrow> int" where
  "spec_end_line document n =
     (case spec_scan_lines (drop n document) (int n) 0 Outside of
        Some l \<Rightarrow> l
      | None \<Rightarrow> int n)"

section \<open>The edit synthesizer (\<open>createAddExceptionEdit\<close>)\<close>

text \<open>
  The regular expression \<open>/exceptions\s*=\s*\[([^\]]*)\]/\<close>. Each starred class is followed
  by a character outside the class, so a match at a position, when there is one, is
  unique: all the white space, \<open>=\<close>, all the white space, \<open>[\<close>, everything up to the next
  \<open>]\<close>. \<open>match_here s\<close> is the text matched at the start of \<open>s\<close>, and \<open>regex_exec s\<close> the
  leftmost match with its index (\<open>String.prototype.match\<close>; \<open>None\<close> is \<open>null\<close>).
\<close>

definition match_here :: "string \<Rightarrow> string option" where
  "match_here s =
     (if startsWith s ''exceptions'' then
        (let r1 = drop 10 s; w1 = takeWhile is_space r1 in
         case dropWhile is_space r1 of
           [] \<Rightarrow> None
         | c # r2 \<Rightarrow>
            if c \<noteq> CHR ''='' then None
            else (let w2 = takeWhile is_space r2 in
              case dropWhile is_space r2 of
                [] \<Rightarrow> None
              | b # r3 \<Rightarrow>
                 if b \<noteq> CHR ''['' then None
                 else (let body = takeWhile (\<lambda>x. x \<noteq> CHR '']'') r3 in
                   case dropWhile (\<lambda>x. x \<noteq> CHR '']'') r3 of
                     [] \<Rightarrow> None
                   | _ # _ \<Rightarrow> Some (''exceptions'' @ w1 @ ''='' @ w2 @ ''['' @ body @ '']''))))
      else None)"

fun regex_exec :: "string \<Rightarrow> (nat \<times> string) option" where
  "regex_exec [] = map_option (Pair 0) (match_here [])"
| "regex_exec (c # cs) =
     (case match_here (c # cs) of
        Some m \<Rightarrow> Some (0, m)
      | None \<Rightarrow> map_option (\<lambda>(i, m). (Suc i, m)) (regex_exec cs))"

text \<open>A workspace edit is the list of the text edits added to it: \<open>Replace\<close> carries the
  start line, start column, end line and end column of its range, \<open>Insert\<close> the line and
  column of its position.\<close>

datatype TextEdit = Replace int int int int string | Insert int int string

definition createAddExceptionEdit ::
    "TextDocument \<Rightarrow> EndpointInfo \<Rightarrow> string list \<Rightarrow> error + TextEdit list" where
  "createAddExceptionEdit document endpoint newExceptions =
     (let decoratorLine = decoratorLine endpoint - 1;
          allExceptions = allExceptions (declaredExceptions endpoint) newExceptions
      in case exceptionsLine endpoint of
           Some el \<Rightarrow>
             (let excLine = el - 1 in
              case lineAt document excLine of
                Inl e \<Rightarrow> Inl e
              | Inr lineText \<Rightarrow>
                 (case regex_exec lineText of
                    Some (idx, m) \<Rightarrow>
                      (let startCol = indexOf lineText ''exceptions'';
                           endCol = startCol + int (length m);
                           newText = exceptionsText allExceptions
                       in Inr [Replace excLine startCol excLine endCol newText])
                  | None \<Rightarrow> Inr []))
         | None \<Rightarrow>
             (case findDecoratorEndLine document decoratorLine of
                Inl e \<Rightarrow> Inl e
              | Inr decoratorEndLine \<Rightarrow>
                 (case lineAt document decoratorEndLine of
                    Inl e \<Rightarrow> Inl e
                  | Inr endLineText \<Rightarrow>
                     (let closingParenIndex = lastIndexOf endLineText (CHR '')'') in
                      if closingParenIndex \<ge> 0 then
                        (let beforeParen = trim (substring endLineText 0 closingParenIndex);
                             needsComma = (length beforeParen > 0 \<and> \<not> endsWith beforeParen '','');
                             insertText = (if needsComma then '','' else [])
                                          @ ''\<newline>    '' @ exceptionsText allExceptions
                         in Inr [Insert decoratorEndLine closingParenIndex insertText])
                      else Inr []))))"

section \<open>Configuration and file exclusion\<close>

text \<open>The settings record, and the defaults \<open>getConfig\<close> falls back to.\<close>

record FaexConfig =
  enable :: bool
  faexPath :: string
  depth :: int
  ignore :: "string list"
  exclude :: "string list"
  validateOnSave :: bool
  validateOnType :: bool
  showCodeLens :: bool

definition default_config :: FaexConfig where
  "default_config =
     \<lparr> enable = True, faexPath = ''faex'', depth = 3, ignore = [],
       exclude = [''**/tests/**'', ''**/test_*.py''],
       validateOnSave = True, validateOnType = False, showCodeLens = True \<rparr>"

text \<open>
  \<open>String.prototype.replace\<close> with a global regular expression that matches one fixed,
  non-empty text: every occurrence, found from left to right without overlap, is replaced.
  \<open>regexPattern\<close> is the chain of four replacements of \<open>matchGlobPattern\<close>.
\<close>

fun replaceAll :: "string \<Rightarrow> string \<Rightarrow> string \<Rightarrow> string" where
  "replaceAll p r [] = []"
| "replaceAll p r (c # cs) =
     (if p \<noteq> [] \<and> startsWith (c # cs) p then r @ replaceAll p r (drop (length p - 1) cs)
      else c # replaceAll p r cs)"

definition regexPattern :: "string \<Rightarrow> string" where
  "regexPattern pattern =
     replaceAll ''{{GLOBSTAR}}'' ''.*''
       (replaceAll ''*'' ''[^/]*''
         (replaceAll ''**'' ''{{GLOBSTAR}}''
           (replaceAll ''.'' [backslash, CHR ''.''] pattern)))"

text \<open>
  The regular expressions that the translation produces from a pattern made of ordinary
  characters, \<open>.\<close>, \<open>*\<close> and \<open>**\<close> are sequences of literal characters (an escaped dot
  included), \<open>.*\<close> and \<open>[^/]*\<close>. \<open>rx_parse\<close> reads such a source, \<open>rx_match\<close> decides whether
  the whole string matches it. The dot of a JavaScript regular expression matches every
  character but a line terminator (line feed and carriage return, below 256); the class
  \<open>[^/]\<close> matches every character but the slash.
\<close>

datatype rx = Lit char | AnyStar | NotSlashStar

definition is_line_terminator :: "char \<Rightarrow> bool" where
  "is_line_terminator c = (c = CHR 0x0A \<or> c = CHR 0x0D)"

definition is_syntax_char :: "char \<Rightarrow> bool" where
  "is_syntax_char c = (c \<in> set ''^$.*+?()[]{}|'' \<or> c = backslash)"

fun rx_parse :: "string \<Rightarrow> rx list option" where
  "rx_parse [] = Some []"
| "rx_parse (c # cs) =
     (if c = backslash then
        (case cs of
           d # r \<Rightarrow> if d = CHR ''.'' then map_option ((#) (Lit d)) (rx_parse r) else None
         | [] \<Rightarrow> None)
      else if c = CHR ''.'' then
        (case cs of
           d # r \<Rightarrow> if d = CHR ''*'' then map_option ((#) AnyStar) (rx_parse r) else None
         | [] \<Rightarrow> None)
      else if startsWith (c # cs) ''[^/]*'' then
        map_option ((#) NotSlashStar) (rx_parse (drop 4 cs))
      else if is_syntax_char c then None
      else map_option ((#) (Lit c)) (rx_parse cs))"

fun rx_match :: "rx list \<Rightarrow> string \<Rightarrow> bool" where
  "rx_match [] s = (s = [])"
| "rx_match (Lit c # r) [] = False"
| "rx_match (Lit c # r) (x # xs) = (x = c \<and> rx_match r xs)"
| "rx_match (AnyStar # r) [] = rx_match r []"
| "rx_match (AnyStar # r) (x # xs) =
     (rx_match r (x # xs) \<or> (\<not> is_line_terminator x \<and> rx_match (AnyStar # r) xs))"
| "rx_match (NotSlashStar # r) [] = rx_match r []"
| "rx_match (NotSlashStar # r) (x # xs) =
     (rx_match r (x # xs) \<or> (x \<noteq> CHR ''/'' \<and> rx_match (NotSlashStar # r) xs))"

text \<open>
  \<open>new RegExp(source).test(s)\<close> for the source \<open>^...$\<close> that \<open>matchGlobPattern\<close> builds.
  Sources outside the fragment above are left to \<open>engine\<close>, which stands for the
  JavaScript engine there: \<open>Inl\<close> when the constructor throws a \<open>SyntaxError\<close>, \<open>Inr\<close> the
  result of \<open>test\<close> otherwise.
\<close>

type_synonym regexp_engine = "string \<Rightarrow> string \<Rightarrow> error + bool"

definition RegExp_test :: "regexp_engine \<Rightarrow> string \<Rightarrow> string \<Rightarrow> error + bool" where
  "RegExp_test engine source s =
     (if length source \<ge> 2 \<and> hd source = CHR ''^'' \<and> last source = CHR ''$'' then
        (case rx_parse (butlast (tl source)) of
           Some r \<Rightarrow> Inr (rx_match r s)
         | None \<Rightarrow> engine source s)
      else engine source s)"

definition matchGlobPattern :: "regexp_engine \<Rightarrow> string \<Rightarrow> string \<Rightarrow> error + bool" where
  "matchGlobPattern engine path pattern =
     RegExp_test engine (''^'' @ regexPattern pattern @ ''$'') path"

fun exclude_loop :: "regexp_engine \<Rightarrow> string \<Rightarrow> string list \<Rightarrow> error + bool" where
  "exclude_loop engine relativePath [] = Inr False"
| "exclude_loop engine relativePath (pattern # rest) =
     (case matchGlobPattern engine relativePath pattern of
        Inl e \<Rightarrow> Inl e
      | Inr matched \<Rightarrow> if matched then Inr True else exclude_loop engine relativePath rest)"

definition shouldExcludeFile ::
    "regexp_engine \<Rightarrow> (string \<Rightarrow> string) \<Rightarrow> string \<Rightarrow> FaexConfig \<Rightarrow> error + bool" where
  "shouldExcludeFile engine asRelativePath filePath config =
     exclude_loop engine (asRelativePath filePath) (exclude config)"

text \<open>An engine for the examples: it rejects every source outside the fragment.\<close>

definition no_engine :: regexp_engine where
  "no_engine source s = Inl (RegexSyntaxError source)"

section \<open>The tool's process and the analyzer\<close>

text \<open>
  What the spawned process does is an event: \<open>close\<close> with the exit code (\<open>null\<close> when a
  signal ended it) and the collected standard output and standard error, or \<open>error\<close> when
  it could not be spawned. \<open>runFaexCli\<close> gives what the promise resolves to (\<open>None\<close> for
  \<open>null\<close>) and what the handler logs or shows. \<open>JSON_parse\<close> stands for \<open>JSON.parse\<close>, cast
  to the output type as the source does: \<open>Inl\<close> when it throws, \<open>Inr None\<close> for the text
  \<open>null\<close>.
\<close>

datatype process_event = Close "int option" string string | SpawnError string

datatype effect = Spawned string | ConsoleError string string | ShowErrorMessage string

definition runFaexCli ::
    "(string \<Rightarrow> error + FaexJsonOutput option) \<Rightarrow> process_event
       \<Rightarrow> FaexJsonOutput option \<times> effect list" where
  "runFaexCli JSON_parse ev =
     (case ev of
        Close code stdout stderr \<Rightarrow>
          (if stdout \<noteq> [] then
             (case JSON_parse stdout of
                Inr result \<Rightarrow> (result, [])
              | Inl e \<Rightarrow> (None, [ConsoleError ''Failed to parse faex output:'' stdout]))
           else (None, if stderr \<noteq> [] then [ConsoleError ''faex error:'' stderr] else []))
      | SpawnError msg \<Rightarrow>
          (None, [ConsoleError ''Failed to run faex:'' msg,
                  ShowErrorMessage (''Failed to run faex: '' @ msg
                    @ ''. Make sure faex is installed (pip install faex)'')]))"

text \<open>
  \<open>EndpointAnalyzer.analyzeDocument\<close>: the result, the analyzer's cache after the call, and
  the effects (\<open>Spawned\<close> when the tool was run). \<open>proc\<close> gives the process event for a
  path. An exception of \<open>shouldExcludeFile\<close> is thrown outside the \<open>try\<close> block and leaves
  the function. Inside the block nothing throws: the promise of \<open>runFaexCli\<close> is never
  rejected, and the parsed output has the type it is cast to. Saving a modified document
  before the tool runs is the editor's business and is left out.
\<close>

definition EndpointAnalyzer_analyzeDocument ::
    "regexp_engine \<Rightarrow> (string \<Rightarrow> string) \<Rightarrow> (string \<Rightarrow> error + FaexJsonOutput option)
       \<Rightarrow> (string \<Rightarrow> process_event) \<Rightarrow> FaexConfig \<Rightarrow> (string \<rightharpoonup> EndpointInfo list) \<Rightarrow> string
       \<Rightarrow> error + AnalysisResult \<times> (string \<rightharpoonup> EndpointInfo list) \<times> effect list" where
  "EndpointAnalyzer_analyzeDocument engine asRelativePath JSON_parse proc config cache fsPath =
     (case shouldExcludeFile engine asRelativePath fsPath config of
        Inl e \<Rightarrow> Inl e
      | Inr excluded \<Rightarrow>
          if excluded then Inr (\<lparr> res_endpoints = [], res_errors = [] \<rparr>, cache, [])
          else
            (case runFaexCli JSON_parse (proc fsPath) of
               (None, log) \<Rightarrow>
                 Inr (\<lparr> res_endpoints = [], res_errors = [] \<rparr>, cache, Spawned fsPath # log)
             | (Some result, log) \<Rightarrow>
                 (let eps = map convertEndpoint (endpoints result)
                  in Inr (\<lparr> res_endpoints = eps,
                            res_errors = map (\<lambda>msg. \<lparr> err_file = fsPath, err_line = None,
                                                     message = msg \<rparr>) (errors result) \<rparr>,
                          cache(fsPath \<mapsto> eps), Spawned fsPath # log))))"

section \<open>The diagnostics manager\<close>

text \<open>
  The state of \<open>DiagnosticsManager\<close>, and \<open>awaiting\<close>: the calls of \<open>analyzeDocument\<close> that
  are suspended at \<open>await analyzer.analyzeDocument(document)\<close>, by path, in the order they
  started. A diagnostic is kept as the endpoint and exception it is made from;
  \<open>createDiagnostic\<close> builds its range on line \<open>exception.line - 1\<close>, and the editor's
  \<open>lineAt\<close> and \<open>Position\<close> throw when that is negative. On the
  single thread of the extension host \<open>analyzeDocument\<close> runs in two uninterrupted parts:
  \<open>analyze_start\<close>, up to the \<open>await\<close>, and \<open>analyze_finish\<close>, from the moment the analyzer's
  promise is settled (\<open>Inl\<close> when it is rejected) to the end of the \<open>finally\<close> block.
\<close>

type_synonym Diagnostic = "EndpointInfo \<times> ExceptionLocation"

record dm_state =
  diagnosticCollection :: "string \<rightharpoonup> Diagnostic list"
  endpointCache :: "string \<rightharpoonup> EndpointInfo list"
  analysisInProgress :: "string set"
  awaiting :: "string list"

definition dm_init :: dm_state where
  "dm_init = \<lparr> diagnosticCollection = Map.empty, endpointCache = Map.empty,
               analysisInProgress = {}, awaiting = [] \<rparr>"

definition clearDiagnostics :: "string \<Rightarrow> dm_state \<Rightarrow> dm_state" where
  "clearDiagnostics fsPath s =
     s\<lparr> diagnosticCollection := (diagnosticCollection s)(fsPath := None),
        endpointCache := (endpointCache s)(fsPath := None) \<rparr>"

definition analyze_start ::
    "regexp_engine \<Rightarrow> (string \<Rightarrow> string) \<Rightarrow> FaexConfig \<Rightarrow> string \<Rightarrow> string \<Rightarrow> dm_state
       \<Rightarrow> error + dm_state" where
  "analyze_start engine asRelativePath config languageId fsPath s =
     (if \<not> enable config then Inr s
      else if languageId \<noteq> ''python'' then Inr s
      else case shouldExcludeFile engine asRelativePath fsPath config of
             Inl e \<Rightarrow> Inl e
           | Inr excluded \<Rightarrow>
               if excluded then Inr (clearDiagnostics fsPath s)
               else if fsPath \<in> analysisInProgress s then Inr s
               else Inr (s\<lparr> analysisInProgress := insert fsPath (analysisInProgress s),
                            awaiting := awaiting s @ [fsPath] \<rparr>))"

definition createDiagnostic :: "EndpointInfo \<Rightarrow> ExceptionLocation \<Rightarrow> error + Diagnostic" where
  "createDiagnostic endpoint exception =
     (let line = exc_line exception - 1
      in if line < 0 then Inl IllegalLine else Inr (endpoint, exception))"

fun create_diagnostics :: "(EndpointInfo \<times> ExceptionLocation) list \<Rightarrow> error + Diagnostic list" where
  "create_diagnostics [] = Inr []"
| "create_diagnostics ((endpoint, exception) # rest) =
     (case createDiagnostic endpoint exception of
        Inl e \<Rightarrow> Inl e
      | Inr diagnostic \<Rightarrow>
          (case create_diagnostics rest of
             Inl e \<Rightarrow> Inl e
           | Inr diagnostics \<Rightarrow> Inr (diagnostic # diagnostics)))"

definition analyze_finish :: "string \<Rightarrow> error + AnalysisResult \<Rightarrow> dm_state \<Rightarrow> dm_state" where
  "analyze_finish fsPath outcome s =
     (let s' = (case outcome of
                  Inl e \<Rightarrow> s
                | Inr result \<Rightarrow>
                    (let s1 = s\<lparr> endpointCache :=
                                  (endpointCache s)(fsPath \<mapsto> res_endpoints result) \<rparr>
                     in case create_diagnostics
                               (concat (map (\<lambda>endpoint. map (Pair endpoint)
                                                (getUndeclaredExceptions endpoint))
                                            (res_endpoints result))) of
                          Inl e \<Rightarrow> s1
                        | Inr diagnostics \<Rightarrow>
                            s1\<lparr> diagnosticCollection :=
                                   (diagnosticCollection s1)(fsPath \<mapsto> diagnostics) \<rparr>))
      in s'\<lparr> analysisInProgress := analysisInProgress s' - {fsPath},
             awaiting := remove1 fsPath (awaiting s') \<rparr>)"

datatype dm_event = Request FaexConfig string string | Settled string "error + AnalysisResult"

fun dm_step :: "regexp_engine \<Rightarrow> (string \<Rightarrow> string) \<Rightarrow> dm_state \<Rightarrow> dm_event \<Rightarrow> dm_state" where
  "dm_step engine asRelativePath s (Request config languageId fsPath) =
     (case analyze_start engine asRelativePath config languageId fsPath s of
        Inl e \<Rightarrow> s
      | Inr s' \<Rightarrow> s')"
| "dm_step engine asRelativePath s (Settled fsPath outcome) =
     (if fsPath \<in> set (awaiting s) then analyze_finish fsPath outcome s else s)"

text \<open>The manager run from its initial state through a sequence of requests and
  settlements, and the invariant that ties \<open>awaiting\<close> to the in-progress set.\<close>

definition dm_run :: "regexp_engine \<Rightarrow> (string \<Rightarrow> string) \<Rightarrow> dm_event list \<Rightarrow> dm_state" where
  "dm_run engine asRelativePath events = foldl (dm_step engine asRelativePath) dm_init events"

definition dm_inv :: "dm_state \<Rightarrow> bool" where
  "dm_inv s = (distinct (awaiting s) \<and> set (awaiting s) = analysisInProgress s)"

text \<open>An output of the tool without endpoints, and a stand-in for \<open>JSON.parse\<close>, for the
  examples.\<close>

definition example_output :: FaexJsonOutput where
  "example_output =
     \<lparr> summary = \<lparr> total_endpoints = 0, endpoints_with_issues = 0, total_undeclared = 0 \<rparr>,
       endpoints = [], errors = [] \<rparr>"

definition example_JSON_parse :: "string \<Rightarrow> error + FaexJsonOutput option" where
  \<open>example_JSON_parse s =
     (if s = ''{"summary": {"total_endpoints": 0, "endpoints_with_issues": 0, "total_undeclared": 0}, "endpoints": [], "errors": []}''
      then Inr (Some example_output)
      else if s = ''null'' then Inr None
      else Inl JsonSyntaxError)\<close>

text \<open>An endpoint record for the examples: declared on line 1, nothing declared.\<close>

definition example_endpoint :: EndpointInfo where
  "example_endpoint =
     \<lparr> ep_file = ''app.py'', ep_line = 1, ep_column = 0, functionName = ''get_x'',
       ep_method = ''GET'', ep_path = ''/x'', decoratorLine = 1, exceptionsLine = None,
       declaredExceptions = [], detectedExceptions = [], cli_undeclaredExceptions = None \<rparr>"

text \<open>The same endpoint as the tool reports it when \<open>NotFoundException\<close> is raised at two
  places of the function and not declared.\<close>

definition example_raised_twice :: EndpointInfo where
  "example_raised_twice =
     example_endpoint\<lparr> cli_undeclaredExceptions := Some
       [\<lparr> exc_file = ''app.py'', exc_line = 5, exc_column = 0,
          exceptionClass = ''NotFoundException'', inFunction = None \<rparr>,
        \<lparr> exc_file = ''app.py'', exc_line = 9, exc_column = 0,
          exceptionClass = ''NotFoundException'', inFunction = None \<rparr>] \<rparr>"

section \<open>Theorems\<close>

subsection \<open>Undeclared exceptions\<close>

text \<open>
  Claim C1. For every endpoint record, \<open>getUndeclaredExceptions\<close> returns the tool-supplied
  undeclared list unchanged whenever that list is present (also when it is empty), and
  otherwise exactly the detected exceptions whose class name is not among the declared
  names, in the order of the detected list.
\<close>

theorem getUndeclaredExceptions_spec:
  "getUndeclaredExceptions (endpoint\<lparr>cli_undeclaredExceptions := Some u\<rparr>) = u \<and>
   getUndeclaredExceptions (endpoint\<lparr>cli_undeclaredExceptions := None\<rparr>) =
     [exc \<leftarrow> detectedExceptions endpoint. exceptionClass exc \<notin> set (declaredExceptions endpoint)]"
  by (simp add: getUndeclaredExceptions_def)

subsection \<open>Unused declarations\<close>

text \<open>
  Claim C6. For every endpoint record, \<open>getUnusedDeclarations\<close> returns exactly the declared
  exception names that are the class name of no detected exception, in the order of the
  declared list.
\<close>

theorem getUnusedDeclarations_spec:
  "getUnusedDeclarations endpoint =
     [d \<leftarrow> declaredExceptions endpoint. d \<notin> exceptionClass ` set (detectedExceptions endpoint)]"
  by (simp add: getUnusedDeclarations_def)

text \<open>
  Claim C10. Every endpoint record that \<open>convertEndpoint\<close> builds from the tool's output has
  an empty list of detected exceptions and its decorator line equal to the endpoint's
  line; hence \<open>getUnusedDeclarations\<close> returns its whole list of declared exceptions.
\<close>

theorem convertEndpoint_all_declared_unused:
  "detectedExceptions (convertEndpoint faexEndpoint) = [] \<and>
   decoratorLine (convertEndpoint faexEndpoint) = ep_line (convertEndpoint faexEndpoint) \<and>
   decoratorLine (convertEndpoint faexEndpoint) = fe_line faexEndpoint \<and>
   declaredExceptions (convertEndpoint faexEndpoint) = declared_exceptions faexEndpoint \<and>
   getUnusedDeclarations (convertEndpoint faexEndpoint) = declared_exceptions faexEndpoint"
  by (simp add: convertEndpoint_def getUnusedDeclarations_def)

subsection \<open>The parenthesis scan\<close>

text \<open>
  Claim C2 says that the scan skips every character inside a string literal, that a
  backslash-escaped quote does not terminate the literal, and that the result is the
  first line on which the depth returns to zero. The loop takes a quote for escaped
  whenever the character before it is a backslash, also when that backslash is itself
  escaped. In the document below the literal \<open>"a\\"\<close> ends on line 0 and the call is closed
  there, which is what the specification's scan returns. The loop stays inside the literal
  after its closing quote, skips the parenthesis that closes the call, leaves the literal
  at the opening quote of \<open>")"\<close> on line 2, counts the parenthesis inside that literal
  and returns line 2.
\<close>

theorem findDecoratorEndLine_escaped_backslash_bug:
  \<open>findDecoratorEndLine
     [''@r.get("a'' @ [backslash, backslash] @ ''")'', ''def f():'', ''    return g(")")''] 0 = Inr 2 \<and>
   spec_end_line
     [''@r.get("a'' @ [backslash, backslash] @ ''")'', ''def f():'', ''    return g(")")''] 0 = 0\<close>
  by code_simp

text \<open>Where no backslash is involved the two agree, as on the specification's example of a
  path with parentheses.\<close>

lemma findDecoratorEndLine_path_example:
  \<open>findDecoratorEndLine [''@router.get('', ''    "/x(1)",'', '')''] 0 = Inr 2 \<and>
   spec_end_line [''@router.get('', ''    "/x(1)",'', '')''] 0 = 2\<close>
  by code_simp

subsection \<open>The regenerated list\<close>

text \<open>
  Claim C5 says that the regenerated list has no duplicates. The filter of
  \<open>createAddExceptionEdit\<close> tests the names to add against the declared list only, not
  against each other, and \<open>provideCodeActions\<close> passes to the action that adds all missing
  exceptions the class name of every undeclared exception, one for each place it is
  raised. For an endpoint that raises \<open>NotFoundException\<close> at two places the name arrives
  twice and is written twice.
\<close>

theorem allExceptions_duplicate_bug:
  \<open>map exceptionClass (getUndeclaredExceptions example_raised_twice)
     = [''NotFoundException'', ''NotFoundException''] \<and>
   allExceptions (declaredExceptions example_raised_twice)
       (map exceptionClass (getUndeclaredExceptions example_raised_twice))
     = [''NotFoundException'', ''NotFoundException''] \<and>
   createAddExceptionEdit [''@router.get("/x")''] example_raised_twice
       (map exceptionClass (getUndeclaredExceptions example_raised_twice))
     = Inr [Insert 0 16 '',\<newline>    exceptions=[NotFoundException, NotFoundException]'']\<close>
  by code_simp

subsection \<open>The edit synthesizer\<close>

text \<open>
  Claim C3 asks for a replacement whose range is exactly the span the pattern matched. The
  code takes the length of the match from the regular expression, and the start column
  from \<open>indexOf("exceptions")\<close>, the first occurrence of the word on the line, which need
  not be where the pattern matched. On the line below the word occurs first in the URL
  path: the pattern matches at columns 27 to 41, and the edit replaces columns 14 to 28.
\<close>

theorem createAddExceptionEdit_replace_span_bug:
  \<open>regex_exec ''@router.get("/exceptions", exceptions=[A])'' = Some (27, ''exceptions=[A]'') \<and>
   createAddExceptionEdit [''@router.get("/exceptions", exceptions=[A])'']
       (example_endpoint\<lparr>exceptionsLine := Some 1, declaredExceptions := [''A'']\<rparr>) [''B'']
     = Inr [Replace 0 14 0 28 ''exceptions=[A, B]'']\<close>
  by code_simp

text \<open>
  Claim C4 says that a comma is prepended when the text before the closing parenthesis,
  trimmed, is non-empty and does not end with a comma. The code tests only the text of the
  end line before the parenthesis. For the specification's example, a call over three
  lines whose closing parenthesis stands alone on its line after an argument without a
  trailing comma, that text is empty: the insertion carries no comma, and the edited call
  reads \<open>"/x"\<close>, a line break, \<open>exceptions=[A])\<close>.
\<close>

theorem createAddExceptionEdit_missing_comma_bug:
  \<open>exceptionsLine example_endpoint = None \<and>
   findDecoratorEndLine [''@router.get('', ''    "/x"'', '')''] (decoratorLine example_endpoint - 1)
     = Inr 2 \<and>
   createAddExceptionEdit [''@router.get('', ''    "/x"'', '')''] example_endpoint [''A'']
     = Inr [Insert 2 0 ''\<newline>    exceptions=[A]'']\<close>
  by code_simp

subsection \<open>File exclusion\<close>

text \<open>
  Claim C9 says that every file matching \<open>**/tests/**\<close> is excluded. The translation keeps
  the slash before \<open>tests\<close> and turns \<open>**\<close> into \<open>.*\<close>, so the regular expression is
  \<open>^.*/tests/.*$\<close>: a path needs a slash before \<open>tests\<close>, and the dot does not match a line
  terminator. A file in a \<open>tests\<close> directory at the root of the workspace is not excluded,
  under the default settings or with \<open>**/tests/**\<close> as the only pattern, and an analysis of
  it is started; neither is a file under \<open>tests\<close> whose name contains a line feed.
\<close>

theorem shouldExcludeFile_root_tests_bug:
  "shouldExcludeFile engine (\<lambda>f. f) ''tests/conftest.py'' default_config = Inr False \<and>
   shouldExcludeFile engine (\<lambda>f. f) ''tests/test_a.py''
       (default_config\<lparr> exclude := [''**/tests/**''] \<rparr>) = Inr False \<and>
   shouldExcludeFile engine (\<lambda>f. f) ''a/tests/b\<newline>c.py'' default_config = Inr False \<and>
   analyze_start engine (\<lambda>f. f) default_config ''python'' ''tests/conftest.py'' dm_init
     = Inr (dm_init\<lparr> analysisInProgress := {''tests/conftest.py''},
                      awaiting := [''tests/conftest.py''] \<rparr>)"
proof -
  have root: "shouldExcludeFile engine (\<lambda>f. f) ''tests/conftest.py'' default_config = Inr False"
    by code_simp
  have only: "shouldExcludeFile engine (\<lambda>f. f) ''tests/test_a.py''
       (default_config\<lparr> exclude := [''**/tests/**''] \<rparr>) = Inr False"
    by code_simp
  have feed: "shouldExcludeFile engine (\<lambda>f. f) ''a/tests/b\<newline>c.py'' default_config = Inr False"
    by code_simp
  have "enable default_config" by (simp add: default_config_def)
  then have "analyze_start engine (\<lambda>f. f) default_config ''python'' ''tests/conftest.py'' dm_init
     = Inr (dm_init\<lparr> analysisInProgress := {''tests/conftest.py''},
                      awaiting := [''tests/conftest.py''] \<rparr>)"
    by (simp add: analyze_start_def root dm_init_def)
  with root only feed show ?thesis by simp
qed

subsection \<open>The tool's output\<close>

text \<open>
  Claim C7. The result of \<open>runFaexCli\<close> on a closed process does not depend on the exit
  code. Non-empty standard output that parses is returned as parsed, with nothing logged;
  when it does not parse the result is \<open>null\<close> and the raw text is logged; when it is
  empty the result is \<open>null\<close> (and standard error is logged if there is any). On a \<open>null\<close>
  result of a closed process, \<open>EndpointAnalyzer.analyzeDocument\<close> returns no endpoints and
  no errors, leaves its cache as it was, and no error message is shown.
\<close>

theorem runFaexCli_close:
  "runFaexCli JSON_parse (Close code stdout stderr) = runFaexCli JSON_parse (Close code' stdout stderr) \<and>
   (stdout \<noteq> [] \<and> JSON_parse stdout = Inr v \<longrightarrow>
      runFaexCli JSON_parse (Close code stdout stderr) = (v, [])) \<and>
   (stdout \<noteq> [] \<and> JSON_parse stdout = Inl e \<longrightarrow>
      runFaexCli JSON_parse (Close code stdout stderr)
        = (None, [ConsoleError ''Failed to parse faex output:'' stdout])) \<and>
   (stdout = [] \<longrightarrow>
      runFaexCli JSON_parse (Close code stdout stderr)
        = (None, if stderr \<noteq> [] then [ConsoleError ''faex error:'' stderr] else [])) \<and>
   (shouldExcludeFile engine asRelativePath fsPath config = Inr False \<and>
    proc fsPath = Close code stdout stderr \<and>
    fst (runFaexCli JSON_parse (Close code stdout stderr)) = None \<longrightarrow>
      EndpointAnalyzer_analyzeDocument engine asRelativePath JSON_parse proc config cache fsPath
        = Inr (\<lparr> res_endpoints = [], res_errors = [] \<rparr>, cache,
               Spawned fsPath # snd (runFaexCli JSON_parse (Close code stdout stderr))) \<and>
      (\<forall>m. ShowErrorMessage m \<notin> set (snd (runFaexCli JSON_parse (Close code stdout stderr)))))"
proof -
  let ?r = "runFaexCli JSON_parse (Close code stdout stderr)"
  have indep: "?r = runFaexCli JSON_parse (Close code' stdout stderr)"
    by (simp add: runFaexCli_def)
  have ok: "stdout \<noteq> [] \<and> JSON_parse stdout = Inr v \<longrightarrow> ?r = (v, [])"
    by (simp add: runFaexCli_def)
  have bad: "stdout \<noteq> [] \<and> JSON_parse stdout = Inl e \<longrightarrow>
      ?r = (None, [ConsoleError ''Failed to parse faex output:'' stdout])"
    by (simp add: runFaexCli_def)
  have empty: "stdout = [] \<longrightarrow>
      ?r = (None, if stderr \<noteq> [] then [ConsoleError ''faex error:'' stderr] else [])"
    by (simp add: runFaexCli_def)
  have quiet: "ShowErrorMessage m \<notin> set (snd ?r)" for m
    by (simp add: runFaexCli_def split: sum.split)
  have caller: "EndpointAnalyzer_analyzeDocument engine asRelativePath JSON_parse proc config cache fsPath
        = Inr (\<lparr> res_endpoints = [], res_errors = [] \<rparr>, cache, Spawned fsPath # snd ?r)"
    if "shouldExcludeFile engine asRelativePath fsPath config = Inr False"
      and "proc fsPath = Close code stdout stderr" and "fst ?r = None"
  proof -
    from that(3) have "?r = (None, snd ?r)" by (metis prod.collapse)
    then show ?thesis
      unfolding EndpointAnalyzer_analyzeDocument_def that(1,2)
      by (simp add: case_prod_unfold that(3))
  qed
  show ?thesis using indep ok bad empty quiet caller by blast
qed

theorem runFaexCli_close_witness:
  \<open>runFaexCli example_JSON_parse (Close (Some 1) ''{"summary": {"total_endpoints": 0, "endpoints_with_issues": 0, "total_undeclared": 0}, "endpoints": [], "errors": []}'' [])
     = (Some example_output, []) \<and>
   runFaexCli example_JSON_parse (Close (Some 0) ''Traceback'' [])
     = (None, [ConsoleError ''Failed to parse faex output:'' ''Traceback'']) \<and>
   runFaexCli example_JSON_parse (Close (Some 2) [] ''usage'')
     = (None, [ConsoleError ''faex error:'' ''usage'']) \<and>
   EndpointAnalyzer_analyzeDocument no_engine (\<lambda>f. f) example_JSON_parse
       (\<lambda>f. Close (Some 0) ''Traceback'' []) default_config Map.empty ''app/main.py''
     = Inr (\<lparr> res_endpoints = [], res_errors = [] \<rparr>, Map.empty,
            [Spawned ''app/main.py'', ConsoleError ''Failed to parse faex output:'' ''Traceback''])\<close>
proof -
  let ?good = \<open>''{"summary": {"total_endpoints": 0, "endpoints_with_issues": 0, "total_undeclared": 0}, "endpoints": [], "errors": []}''\<close>
  have p1: "?good \<noteq> [] \<and> example_JSON_parse ?good = Inr (Some example_output)"
    by (simp add: example_JSON_parse_def)
  have p2: "''Traceback'' \<noteq> [] \<and> example_JSON_parse ''Traceback'' = Inl JsonSyntaxError"
    by (simp add: example_JSON_parse_def)
  have ex: "shouldExcludeFile no_engine (\<lambda>f. f) ''app/main.py'' default_config = Inr False"
    by code_simp
  note a = runFaexCli_close [where JSON_parse = example_JSON_parse and code = "Some 1"
      and stdout = ?good and stderr = "[]" and v = "Some example_output"]
  note b = runFaexCli_close [where JSON_parse = example_JSON_parse and code = "Some 0"
      and stdout = "''Traceback''" and stderr = "[]" and e = JsonSyntaxError
      and engine = no_engine and asRelativePath = "\<lambda>f. f" and fsPath = "''app/main.py''"
      and config = default_config and proc = "\<lambda>f. Close (Some 0) ''Traceback'' []"
      and cache = Map.empty]
  note c = runFaexCli_close [where JSON_parse = example_JSON_parse and code = "Some 2"
      and stdout = "[]" and stderr = "''usage''"]
  have r1: "runFaexCli example_JSON_parse (Close (Some 1) ?good [])
     = (Some example_output, [])"
    using a p1 by blast
  have r2: "runFaexCli example_JSON_parse (Close (Some 0) ''Traceback'' [])
     = (None, [ConsoleError ''Failed to parse faex output:'' ''Traceback''])"
    using b p2 by blast
  have r3: "runFaexCli example_JSON_parse (Close (Some 2) [] ''usage'')
     = (None, [ConsoleError ''faex error:'' ''usage''])"
    using c by simp
  have r4: "EndpointAnalyzer_analyzeDocument no_engine (\<lambda>f. f) example_JSON_parse
       (\<lambda>f. Close (Some 0) ''Traceback'' []) default_config Map.empty ''app/main.py''
     = Inr (\<lparr> res_endpoints = [], res_errors = [] \<rparr>, Map.empty,
            [Spawned ''app/main.py'', ConsoleError ''Failed to parse faex output:'' ''Traceback''])"
    using b ex r2 by simp
  from r1 r2 r3 r4 show ?thesis by blast
qed

subsection \<open>One analysis in flight per file\<close>

lemma distinct_count_list: "distinct xs \<Longrightarrow> count_list xs a \<le> 1"
  by (induction xs) (auto simp: count_list_0_iff)

lemma dm_inv_init: "dm_inv dm_init"
  by (simp add: dm_inv_def dm_init_def)

lemma dm_inv_clearDiagnostics: "dm_inv (clearDiagnostics fsPath s) = dm_inv s"
  by (simp add: dm_inv_def clearDiagnostics_def)

lemma dm_inv_add:
  assumes "dm_inv s" and "fsPath \<notin> analysisInProgress s"
  shows "dm_inv (s\<lparr> analysisInProgress := insert fsPath (analysisInProgress s),
                     awaiting := awaiting s @ [fsPath] \<rparr>)"
  using assms by (simp add: dm_inv_def)

lemma dm_inv_start:
  assumes "dm_inv s"
    and "analyze_start engine asRelativePath config languageId fsPath s = Inr s'"
  shows "dm_inv s'"
proof (cases "enable config \<and> languageId = ''python''")
  case False
  with assms(2) have "s' = s" by (auto simp: analyze_start_def split: if_splits)
  with assms(1) show ?thesis by simp
next
  case True
  show ?thesis
  proof (cases "shouldExcludeFile engine asRelativePath fsPath config")
    case (Inl e)
    with True assms(2) show ?thesis by (simp add: analyze_start_def)
  next
    case (Inr excluded)
    show ?thesis
    proof (cases excluded)
      case True
      with \<open>enable config \<and> languageId = ''python''\<close> Inr assms(2)
      have "s' = clearDiagnostics fsPath s" by (simp add: analyze_start_def)
      with assms(1) show ?thesis by (simp add: dm_inv_clearDiagnostics)
    next
      case False
      show ?thesis
      proof (cases "fsPath \<in> analysisInProgress s")
        case True
        with \<open>enable config \<and> languageId = ''python''\<close> Inr False assms(2)
        have "s' = s" by (simp add: analyze_start_def)
        with assms(1) show ?thesis by simp
      next
        case notin: False
        with \<open>enable config \<and> languageId = ''python''\<close> Inr False assms(2)
        have "s' = s\<lparr> analysisInProgress := insert fsPath (analysisInProgress s),
                        awaiting := awaiting s @ [fsPath] \<rparr>"
          by (simp add: analyze_start_def)
        with dm_inv_add [OF assms(1) notin] show ?thesis by simp
      qed
    qed
  qed
qed

lemma dm_inv_finish:
  assumes "dm_inv s"
  shows "dm_inv (analyze_finish fsPath outcome s)"
proof -
  from assms have d: "distinct (awaiting s)" and e: "set (awaiting s) = analysisInProgress s"
    by (simp_all add: dm_inv_def)
  have "distinct (remove1 fsPath (awaiting s))" using d by simp
  moreover have "set (remove1 fsPath (awaiting s)) = analysisInProgress s - {fsPath}"
    using d e by simp
  ultimately show ?thesis
    by (cases outcome) (simp_all add: dm_inv_def analyze_finish_def Let_def split: sum.split)
qed

lemma dm_inv_step:
  assumes "dm_inv s"
  shows "dm_inv (dm_step engine asRelativePath s ev)"
proof (cases ev)
  case (Request config languageId fsPath)
  show ?thesis
  proof (cases "analyze_start engine asRelativePath config languageId fsPath s")
    case (Inl e)
    with Request assms show ?thesis by simp
  next
    case (Inr s')
    with dm_inv_start [OF assms Inr] Request show ?thesis by simp
  qed
next
  case (Settled fsPath outcome)
  with assms dm_inv_finish [OF assms] show ?thesis by simp
qed

lemma dm_inv_foldl: "dm_inv s \<Longrightarrow> dm_inv (foldl (dm_step engine asRelativePath) s events)"
  by (induction events arbitrary: s) (simp_all add: dm_inv_step)

lemma dm_inv_run: "dm_inv (dm_run engine asRelativePath events)"
  unfolding dm_run_def by (rule dm_inv_foldl [OF dm_inv_init])

text \<open>
  Claim C8. After any sequence of requests and settlements, no path is awaited by more than
  one call of \<open>analyzeDocument\<close>, and the awaited paths are exactly the in-progress set.
  A request that passes the settings, language and exclusion checks is dropped with the
  state unchanged when its path is in the set, and otherwise adds the path to the set
  before the analyzer is awaited; the end of an analysis takes the path out of the set
  whether the analyzer's promise was fulfilled or rejected.
\<close>

theorem analysis_single_flight:
  "count_list (awaiting (dm_run engine asRelativePath events)) fsPath \<le> 1 \<and>
   set (awaiting (dm_run engine asRelativePath events))
     = analysisInProgress (dm_run engine asRelativePath events) \<and>
   (enable config \<and> languageId = ''python'' \<and>
    shouldExcludeFile engine asRelativePath fsPath config = Inr False \<longrightarrow>
      (fsPath \<in> analysisInProgress s \<longrightarrow>
         analyze_start engine asRelativePath config languageId fsPath s = Inr s) \<and>
      (fsPath \<notin> analysisInProgress s \<longrightarrow>
         analyze_start engine asRelativePath config languageId fsPath s
           = Inr (s\<lparr> analysisInProgress := insert fsPath (analysisInProgress s),
                      awaiting := awaiting s @ [fsPath] \<rparr>))) \<and>
   fsPath \<notin> analysisInProgress (analyze_finish fsPath outcome s) \<and>
   (dm_inv s \<longrightarrow> fsPath \<notin> set (awaiting (analyze_finish fsPath outcome s)))"
proof -
  have inv: "dm_inv (dm_run engine asRelativePath events)" by (rule dm_inv_run)
  then have "distinct (awaiting (dm_run engine asRelativePath events))"
    by (simp add: dm_inv_def)
  then have "count_list (awaiting (dm_run engine asRelativePath events)) fsPath \<le> 1"
    by (rule distinct_count_list)
  moreover have "set (awaiting (dm_run engine asRelativePath events))
     = analysisInProgress (dm_run engine asRelativePath events)"
    using inv by (simp add: dm_inv_def)
  moreover have "fsPath \<notin> analysisInProgress (analyze_finish fsPath outcome s)"
    by (simp add: analyze_finish_def Let_def split: sum.splits)
  moreover have "dm_inv s \<longrightarrow> fsPath \<notin> set (awaiting (analyze_finish fsPath outcome s))"
    by (auto simp: dm_inv_def analyze_finish_def Let_def split: sum.splits)
  ultimately show ?thesis by (simp add: analyze_start_def)
qed


theorem analysis_single_flight_witness:
  "analyze_start no_engine (\<lambda>f. f) default_config ''python'' ''app/main.py'' dm_init
     = Inr (dm_init\<lparr> analysisInProgress := {''app/main.py''}, awaiting := [''app/main.py''] \<rparr>) \<and>
   analyze_start no_engine (\<lambda>f. f) default_config ''python'' ''app/main.py''
       (dm_init\<lparr> analysisInProgress := {''app/main.py''}, awaiting := [''app/main.py''] \<rparr>)
     = Inr (dm_init\<lparr> analysisInProgress := {''app/main.py''}, awaiting := [''app/main.py''] \<rparr>) \<and>
   ''app/main.py'' \<notin> set (awaiting (analyze_finish ''app/main.py'' (Inl (RegexSyntaxError ''^($''))
       (dm_init\<lparr> analysisInProgress := {''app/main.py''}, awaiting := [''app/main.py''] \<rparr>))) \<and>
   count_list (awaiting (dm_run no_engine (\<lambda>f. f)
       [Request default_config ''python'' ''app/main.py'',
        Request default_config ''python'' ''app/main.py''])) ''app/main.py'' \<le> 1"
proof -
  let ?s1 = "dm_init\<lparr> analysisInProgress := {''app/main.py''}, awaiting := [''app/main.py''] \<rparr>"
  have g: "enable default_config \<and> ''python'' = ''python'' \<and>
      shouldExcludeFile no_engine (\<lambda>f. f) ''app/main.py'' default_config = Inr False"
  proof -
    have "shouldExcludeFile no_engine (\<lambda>f. f) ''app/main.py'' default_config = Inr False"
      by code_simp
    then show ?thesis by (simp add: default_config_def)
  qed
  have n0: "''app/main.py'' \<notin> analysisInProgress dm_init" by (simp add: dm_init_def)
  have n1: "''app/main.py'' \<in> analysisInProgress ?s1" by simp
  have i1: "dm_inv ?s1" by (simp add: dm_inv_def dm_init_def)
  note a = analysis_single_flight [where engine = no_engine and asRelativePath = "\<lambda>f. f"
      and config = default_config and languageId = "''python''" and fsPath = "''app/main.py''"
      and s = dm_init]
  note b = analysis_single_flight [where engine = no_engine and asRelativePath = "\<lambda>f. f"
      and config = default_config and languageId = "''python''" and fsPath = "''app/main.py''"
      and s = ?s1 and outcome = "Inl (RegexSyntaxError ''^($'')"
      and events = "[Request default_config ''python'' ''app/main.py'',
        Request default_config ''python'' ''app/main.py'']"]
  have r1: "analyze_start no_engine (\<lambda>f. f) default_config ''python'' ''app/main.py'' dm_init
     = Inr ?s1"
    using a g n0 by (simp add: dm_init_def)
  have r2: "analyze_start no_engine (\<lambda>f. f) default_config ''python'' ''app/main.py'' ?s1 = Inr ?s1"
    using b g n1 by blast
  have r3: "''app/main.py'' \<notin> set (awaiting (analyze_finish ''app/main.py''
      (Inl (RegexSyntaxError ''^($'')) ?s1))"
    using b i1 by blast
  have r4: "count_list (awaiting (dm_run no_engine (\<lambda>f. f)
       [Request default_config ''python'' ''app/main.py'',
        Request default_config ''python'' ''app/main.py''])) ''app/main.py'' \<le> 1"
    using b by blast
  from r1 r2 r3 r4 show ?thesis by blast
qed

end
